theory Spec2Isabelle
  imports Complex_Main
begin

section \<open>Errors raised by the Python code\<close>

text \<open>
  Every exception the modelled code can raise is a value; a function that can raise
  returns \<open>py_error + 'a\<close> with \<open>Inl\<close> for the exception.
\<close>

datatype py_error =
    TypeError
  | ValueError
  | AttributeError
  | AssertionError string
  | UnknownMode string
  | ZeroDivisionError
  | FileNotFound string
  | CvError

section \<open>utils/data\_split.py\<close>

text \<open>
  \<open>split_random\<close> draws \<open>np.random.randint(100)\<close> once per tag; the draws are an
  explicit argument, one per tag, in call order (a missing draw is read as \<open>0\<close>).
  Python's true division \<open>i / 100\<close> and the comparison with \<open>ratio\<close> are modelled in
  exact rational arithmetic.
\<close>

fun split_random_loop ::
  "'t list \<Rightarrow> nat list \<Rightarrow> rat \<Rightarrow> 't list \<times> 't list \<Rightarrow> 't list \<times> 't list" where
  "split_random_loop [] ds ratio (train_tags, test_tags) = (train_tags, test_tags)"
| "split_random_loop (tag # tags) ds ratio (train_tags, test_tags) =
     (let d = (case ds of [] \<Rightarrow> 0 | d # _ \<Rightarrow> d) in
      if rat_of_nat d / 100 > ratio
      then split_random_loop tags (tl ds) ratio (train_tags @ [tag], test_tags)
      else split_random_loop tags (tl ds) ratio (train_tags, test_tags @ [tag]))"

definition split_random :: "'t list \<Rightarrow> nat list \<Rightarrow> rat \<Rightarrow> 't list \<times> 't list" where
  "split_random list_of_tags ds ratio = split_random_loop list_of_tags ds ratio ([], [])"

text \<open>
  The loop of \<open>split_fixed\<close> over \<open>enumerate(list_of_tags)\<close>: \<open>i\<close> is the running
  index, the pair holds \<open>train_tags\<close> and \<open>test_tags\<close>.
\<close>

fun split_fixed_loop ::
  "nat \<Rightarrow> 't list \<Rightarrow> rat \<Rightarrow> 't list \<times> 't list \<Rightarrow> 't list \<times> 't list" where
  "split_fixed_loop i [] ratio (train_tags, test_tags) = (train_tags, test_tags)"
| "split_fixed_loop i (tag # tags) ratio (train_tags, test_tags) =
     (if rat_of_nat i / 100 \<ge> ratio
      then split_fixed_loop (Suc i) tags ratio (train_tags @ [tag], test_tags)
      else split_fixed_loop (Suc i) tags ratio (train_tags, test_tags @ [tag]))"

definition split_fixed :: "'t list \<Rightarrow> rat \<Rightarrow> 't list \<times> 't list" where
  "split_fixed list_of_tags ratio = split_fixed_loop 0 list_of_tags ratio ([], [])"

definition split_tags ::
  "'t list \<Rightarrow> nat list \<Rightarrow> rat \<Rightarrow> string \<Rightarrow> py_error + ('t list \<times> 't list)" where
  "split_tags list_of_tags ds ratio mode =
     (if mode = ''random'' then Inr (split_random list_of_tags ds ratio)
      else if mode = ''fixed'' then Inr (split_fixed list_of_tags ratio)
      else Inl (UnknownMode mode))"

section \<open>machine\_learning/feature\_extractor.py\<close>

text \<open>
  The value passed as \<open>features_to_use\<close> is a descriptor name or a (possibly nested)
  list of them. \<open>type(v)\<close> returns a class object; \<open>list()\<close> returns a new empty list.
\<close>

datatype feature_spec = FName string | FList "feature_spec list"

datatype pyobj = Value feature_spec | Class string

fun py_type :: "feature_spec \<Rightarrow> pyobj" where
  "py_type (FName s) = Class ''str''"
| "py_type (FList xs) = Class ''list''"

text \<open>
  \<open>a is not b\<close> compares object identity. Identical objects have equal values, so two
  objects with different values are not identical; the one use below compares a class
  object with a list.
\<close>

definition is_not :: "pyobj \<Rightarrow> pyobj \<Rightarrow> bool" where
  "is_not a b = (a \<noteq> b)"

text \<open>Python's \<open>p in s\<close> on strings: \<open>p\<close> occurs in \<open>s\<close> as a contiguous piece.\<close>

fun is_substr :: "string \<Rightarrow> string \<Rightarrow> bool" where
  "is_substr p [] = (p = [])"
| "is_substr p (c # cs) = (take (length p) (c # cs) = p \<or> is_substr p cs)"

text \<open>\<open>name in v\<close>: substring test on a string, membership test on a list.\<close>

fun py_in :: "string \<Rightarrow> feature_spec \<Rightarrow> bool" where
  "py_in name (FName s) = is_substr name s"
| "py_in name (FList xs) = (FName name \<in> set xs)"

text \<open>Iterating a value with \<open>for\<close>: the elements of a list, the characters of a string.\<close>

fun py_iter :: "feature_spec \<Rightarrow> feature_spec list" where
  "py_iter (FList xs) = xs"
| "py_iter (FName s) = map (\<lambda>c. FName [c]) s"

definition validate_feature_extraction_settings ::
  "string \<Rightarrow> feature_spec \<Rightarrow> string \<times> feature_spec" where
  "validate_feature_extraction_settings sampling_method features_to_use =
     (if sampling_method \<notin> set [''kaze'', ''akaze''] \<and> py_in ''kaze'' features_to_use
      then (''kaze'', features_to_use)
      else if sampling_method = ''sift'' \<and> \<not> py_in ''sift'' features_to_use
      then (''kaze'', features_to_use)
      else (sampling_method, features_to_use))"

text \<open>
  A configured image dimension is \<open>None\<close> or a number (an absolute pixel count or a
  fraction); numbers are exact reals here.
\<close>

record FeatureExtractor =
  features_to_use :: feature_spec
  normalize :: bool
  sampling_method :: string
  sampling_steps :: nat
  sampling_window :: nat
  resize_option :: string
  img_height :: "real option"
  img_width :: "real option"

definition FeatureExtractor_init ::
  "feature_spec \<Rightarrow> bool \<Rightarrow> string \<Rightarrow> nat \<Rightarrow> nat \<Rightarrow> real option \<Rightarrow> real option \<Rightarrow> string
     \<Rightarrow> FeatureExtractor" where
  "FeatureExtractor_init features normalize_arg method steps window image_height image_width
       resize_opt =
     (let (method', features') = validate_feature_extraction_settings method features;
          features'' = (if is_not (py_type features') (Value (FList []))
                        then FList [features'] else features')
      in \<lparr> features_to_use = features'', normalize = normalize_arg,
           sampling_method = method', sampling_steps = steps, sampling_window = window,
           resize_option = resize_opt, img_height = image_height, img_width = image_width \<rparr>)"

text \<open>Python's \<open>int(r)\<close> on a number: truncation towards zero.\<close>

definition py_int :: "real \<Rightarrow> int" where
  "py_int r = (if 0 \<le> r then \<lfloor>r\<rfloor> else \<lceil>r\<rceil>)"

text \<open>\<open>d < 1\<close> and \<open>n * d\<close> raise \<open>TypeError\<close> when \<open>d\<close> is \<open>None\<close>.\<close>

definition lt_one :: "real option \<Rightarrow> py_error + bool" where
  "lt_one d = (case d of None \<Rightarrow> Inl TypeError | Some v \<Rightarrow> Inr (v < 1))"

definition times_dim :: "nat \<Rightarrow> real option \<Rightarrow> py_error + real" where
  "times_dim n d = (case d of None \<Rightarrow> Inl TypeError | Some v \<Rightarrow> Inr (real n * v))"

text \<open>\<open>height < 1 or width < 1\<close>: the right operand is evaluated only if the left is false.\<close>

definition lt_one_or :: "real option \<Rightarrow> real option \<Rightarrow> py_error + bool" where
  "lt_one_or height width =
     (case lt_one height of
        Inl e \<Rightarrow> Inl e
      | Inr True \<Rightarrow> Inr True
      | Inr False \<Rightarrow> lt_one width)"

text \<open>\<open>a / b\<close> on numbers, with the inferred dimension \<open>int(o * (a / b))\<close>.\<close>

definition infer_dim :: "nat \<Rightarrow> real \<Rightarrow> nat \<Rightarrow> py_error + real" where
  "infer_dim o_side given o_given =
     (if o_given = 0 then Inl ZeroDivisionError
      else Inr (of_int (py_int (real o_side * (given / real o_given)))))"

text \<open>
  \<open>resize\<close>. The img type, \<open>img.shape[:2]\<close> and \<open>cv2.resize\<close> (called with the
  target \<open>(width, height)\<close>) belong to the img library and are parameters.
\<close>

definition resize ::
  "('img \<Rightarrow> nat \<times> nat) \<Rightarrow> ('img \<Rightarrow> int \<times> int \<Rightarrow> py_error + 'img)
     \<Rightarrow> 'img \<Rightarrow> real option \<Rightarrow> real option \<Rightarrow> py_error + 'img" where
  "resize shape cv2_resize img height width =
     (if height = None \<and> width = None then Inr img
      else
        let (o_height, o_width) = shape img in
        case lt_one_or height width of
          Inl e \<Rightarrow> Inl e
        | Inr True \<Rightarrow>
            (case times_dim o_height height of
               Inl e \<Rightarrow> Inl e
             | Inr h \<Rightarrow>
                 (case times_dim o_width width of
                    Inl e \<Rightarrow> Inl e
                  | Inr w \<Rightarrow> cv2_resize img (py_int (of_int (py_int w)), py_int (of_int (py_int h)))))
        | Inr False \<Rightarrow>
            (case (case height of
                     Some h \<Rightarrow> Inr h
                   | None \<Rightarrow>
                       (case width of
                          None \<Rightarrow> Inl TypeError
                        | Some w \<Rightarrow> infer_dim o_height w o_width)) of
               Inl e \<Rightarrow> Inl e
             | Inr h \<Rightarrow>
                 (case (case width of
                          Some w \<Rightarrow> Inr w
                        | None \<Rightarrow> infer_dim o_width h o_height) of
                    Inl e \<Rightarrow> Inl e
                  | Inr w \<Rightarrow> cv2_resize img (py_int w, py_int h))))"

text \<open>
  A feature matrix is a list of rows. \<open>np.concatenate(x, axis=1)\<close> joins matrices with
  the same number of rows side by side and raises \<open>ValueError\<close> otherwise.
\<close>

type_synonym matrix = "real list list"

fun hstack :: "matrix \<Rightarrow> matrix \<Rightarrow> matrix" where
  "hstack (r # rs) (q # qs) = (r @ q) # hstack rs qs"
| "hstack _ _ = []"

definition np_concatenate_axis1 :: "matrix list \<Rightarrow> py_error + matrix" where
  "np_concatenate_axis1 ms =
     (case ms of
        [] \<Rightarrow> Inl ValueError
      | m # rest \<Rightarrow>
          if \<forall>k \<in> set rest. length k = length m
          then Inr (foldl hstack m rest) else Inl ValueError)"

text \<open>
  The loop of \<open>extract_x\<close> over the configured features. \<open>compute feature img\<close> is
  \<open>DescriptorSet(feature).compute(img, kp_set)\<close>, the external descriptor capability:
  it raises, returns \<open>None\<close> or returns a matrix.
\<close>

fun extract_x_loop ::
  "(feature_spec \<Rightarrow> 'img \<Rightarrow> py_error + matrix option) \<Rightarrow> 'img \<Rightarrow> feature_spec list
     \<Rightarrow> matrix list \<Rightarrow> py_error + matrix list" where
  "extract_x_loop compute img [] x = Inr x"
| "extract_x_loop compute img (feature # features) x =
     (case compute feature img of
        Inl e \<Rightarrow> Inl e
      | Inr None \<Rightarrow> extract_x_loop compute img features x
      | Inr (Some dc_x) \<Rightarrow> extract_x_loop compute img features (x @ [dc_x]))"

definition extract_x ::
  "FeatureExtractor \<Rightarrow> ('img \<Rightarrow> nat \<times> nat) \<Rightarrow> ('img \<Rightarrow> int \<times> int \<Rightarrow> py_error + 'img)
     \<Rightarrow> (feature_spec \<Rightarrow> 'img \<Rightarrow> py_error + matrix option) \<Rightarrow> 'img
     \<Rightarrow> py_error + matrix option" where
  "extract_x self shape cv2_resize compute img =
     (case resize shape cv2_resize img (img_height self) (img_width self) of
        Inl e \<Rightarrow> Inl e
      | Inr img' \<Rightarrow>
          (case extract_x_loop compute img' (py_iter (features_to_use self)) [] of
             Inl e \<Rightarrow> Inl e
           | Inr x \<Rightarrow>
               if length x = 0 then Inr None
               else if length x = 1 then Inr (Some (x ! 0))
               else (case np_concatenate_axis1 x of
                       Inl e \<Rightarrow> Inl e
                     | Inr m \<Rightarrow> Inr (Some m))))"

text \<open>A tag gives its image with \<open>load_data()\<close> and its label with \<open>load_y()\<close>.\<close>

record 'img tag =
  load_data :: 'img
  load_y :: int

fun extract_trainings_data_loop ::
  "FeatureExtractor \<Rightarrow> ('img \<Rightarrow> nat \<times> nat) \<Rightarrow> ('img \<Rightarrow> int \<times> int \<Rightarrow> py_error + 'img)
     \<Rightarrow> (feature_spec \<Rightarrow> 'img \<Rightarrow> py_error + matrix option) \<Rightarrow> 'img tag list
     \<Rightarrow> matrix option list \<times> int list \<Rightarrow> py_error + (matrix option list \<times> int list)" where
  "extract_trainings_data_loop self shape cv2_resize compute [] (x, y) = Inr (x, y)"
| "extract_trainings_data_loop self shape cv2_resize compute (t # tags) (x, y) =
     (case extract_x self shape cv2_resize compute (load_data t) of
        Inl e \<Rightarrow> Inl e
      | Inr x_tag \<Rightarrow>
          extract_trainings_data_loop self shape cv2_resize compute tags
            (x @ [x_tag], y @ [load_y t]))"

text \<open>
  After the loop the variable \<open>x\<close> holds the list built by the loop; the assertion
  \<open>x is not None\<close> tests that variable, read here as an optional list.
\<close>

definition extract_trainings_data ::
  "FeatureExtractor \<Rightarrow> ('img \<Rightarrow> nat \<times> nat) \<Rightarrow> ('img \<Rightarrow> int \<times> int \<Rightarrow> py_error + 'img)
     \<Rightarrow> (feature_spec \<Rightarrow> 'img \<Rightarrow> py_error + matrix option) \<Rightarrow> 'img tag list
     \<Rightarrow> py_error + (matrix option list \<times> int list)" where
  "extract_trainings_data self shape cv2_resize compute tags =
     (case extract_trainings_data_loop self shape cv2_resize compute tags ([], []) of
        Inl e \<Rightarrow> Inl e
      | Inr (x, y) \<Rightarrow>
          (case Some x of
             None \<Rightarrow> Inl (AssertionError ''No Feature was activated'')
           | Some x' \<Rightarrow> Inr (x', y)))"

text \<open>
  Collaborators for concrete runs: an image is represented by its shape alone,
  \<open>cv2.resize\<close> fails on a non-positive target size, and \<open>no_descriptor\<close> is a
  descriptor capability that finds no features in any img.
\<close>

definition shape_of :: "nat \<times> nat \<Rightarrow> nat \<times> nat" where
  "shape_of img = img"

definition cv2_resize_shape :: "nat \<times> nat \<Rightarrow> int \<times> int \<Rightarrow> py_error + nat \<times> nat" where
  "cv2_resize_shape img dsize =
     (if fst dsize \<le> 0 \<or> snd dsize \<le> 0 then Inl CvError
      else Inr (nat (snd dsize), nat (fst dsize)))"

definition no_descriptor :: "feature_spec \<Rightarrow> 'img \<Rightarrow> py_error + matrix option" where
  "no_descriptor feature img = Inr None"

section \<open>machine\_learning/classifier.py\<close>

text \<open>
  The underlying estimator is an opaque fitted model. It always offers \<open>predict\<close>; the
  attribute \<open>predict_proba\<close> may be absent (\<open>None\<close> here), and either call may raise.
\<close>

record sk_model =
  predict_proba :: "(matrix \<Rightarrow> py_error + matrix) option"
  sk_predict :: "matrix \<Rightarrow> py_error + int list"

datatype json = JNull | JInt int | JStr string | JList "json list" | JDict "(string \<times> json) list"

record Classifier =
  opt :: json
  class_mapping :: json
  class_mapping_inv :: "(json \<times> string) list option"
  classifier :: "sk_model option"
  best_params :: json
  best_score :: "real option"

definition Classifier_init :: "json \<Rightarrow> json \<Rightarrow> Classifier" where
  "Classifier_init opt_arg class_mapping_arg =
     \<lparr> opt = opt_arg, class_mapping = class_mapping_arg, class_mapping_inv = None,
       classifier = None, best_params = JNull, best_score = None \<rparr>"

text \<open>
  \<open>np.max\<close> and \<open>np.argmax\<close> without an axis work on the flattened array and raise
  \<open>ValueError\<close> on an empty one; \<open>np.argmax\<close> returns the first position of the maximum.
\<close>

fun max_list :: "real list \<Rightarrow> real" where
  "max_list [] = 0"
| "max_list [v] = v"
| "max_list (v # w # ws) = max v (max_list (w # ws))"

fun first_index :: "real list \<Rightarrow> real \<Rightarrow> nat" where
  "first_index [] v = 0"
| "first_index (w # ws) v = (if w = v then 0 else Suc (first_index ws v))"

definition np_max :: "matrix \<Rightarrow> py_error + real" where
  "np_max a = (if concat a = [] then Inl ValueError else Inr (max_list (concat a)))"

definition np_argmax :: "matrix \<Rightarrow> py_error + nat" where
  "np_argmax a =
     (if concat a = [] then Inl ValueError
      else Inr (first_index (concat a) (max_list (concat a))))"

datatype prediction = Labels "int list" | WithConfidence "int list" real

text \<open>The body of the \<open>try\<close> block of \<open>predict\<close>.\<close>

definition predict_try :: "Classifier \<Rightarrow> matrix \<Rightarrow> py_error + prediction" where
  "predict_try self x =
     (case classifier self of
        None \<Rightarrow> Inl AttributeError
      | Some m \<Rightarrow>
          (case predict_proba m of
             None \<Rightarrow> Inl AttributeError
           | Some proba \<Rightarrow>
               (case proba x of
                  Inl e \<Rightarrow> Inl e
                | Inr prob \<Rightarrow>
                    (case np_argmax prob of
                       Inl e \<Rightarrow> Inl e
                     | Inr i \<Rightarrow>
                         (case np_max prob of
                            Inl e \<Rightarrow> Inl e
                          | Inr c \<Rightarrow> Inr (WithConfidence [int i] c))))))"

text \<open>The body of the bare \<open>except:\<close> block, entered on any exception of the \<open>try\<close> block.\<close>

definition predict_except :: "Classifier \<Rightarrow> matrix \<Rightarrow> py_error + prediction" where
  "predict_except self x =
     (case classifier self of
        None \<Rightarrow> Inl AttributeError
      | Some m \<Rightarrow>
          (case sk_predict m x of
             Inl e \<Rightarrow> Inl e
           | Inr labels \<Rightarrow> Inr (WithConfidence labels 1)))"

definition Classifier_predict :: "Classifier \<Rightarrow> matrix \<Rightarrow> bool \<Rightarrow> py_error + prediction" where
  "Classifier_predict self x get_confidence =
     (if get_confidence then
        (case predict_try self x of
           Inr r \<Rightarrow> Inr r
         | Inl e \<Rightarrow> predict_except self x)
      else
        (case classifier self of
           None \<Rightarrow> Inl AttributeError
         | Some m \<Rightarrow>
             (case sk_predict m x of
                Inl e \<Rightarrow> Inl e
              | Inr labels \<Rightarrow> Inr (Labels labels))))"

subsection \<open>Persistence\<close>

text \<open>
  The file system maps a path to the content of the file stored there. A file holds a
  JSON value or a pickled estimator; \<open>joblib.dump\<close> and \<open>joblib.load\<close> store and
  return the estimator as an opaque unit.
\<close>

datatype stored_file = JsonFile json | PickleFile sk_model

type_synonym fs = "string \<Rightarrow> stored_file option"

definition path_join :: "string \<Rightarrow> string \<Rightarrow> string" where
  "path_join a b =
     (if b \<noteq> [] \<and> hd b = CHR ''/'' then b
      else if a = [] \<or> last a = CHR ''/'' then a @ b
      else a @ ''/'' @ b)"

definition is_below :: "string \<Rightarrow> string \<Rightarrow> bool" where
  "is_below dir p = (take (length (path_join dir [])) p = path_join dir [])"

text \<open>
  Modelled from the spec: \<open>check_n_make_dir\<close>, \<open>save_dict\<close> and \<open>load_dict\<close> of
  \<open>utils/utils.py\<close> are not among the sources. \<open>save\<close> clears any pre-existing
  directory at the target path before writing: with \<open>clean\<close> every file below the
  directory is removed. \<open>save_dict\<close> writes a dictionary as one JSON file and
  \<open>load_dict\<close> reads it back; a missing file is a fatal error.
\<close>

definition check_n_make_dir :: "string \<Rightarrow> bool \<Rightarrow> fs \<Rightarrow> fs" where
  "check_n_make_dir dir clean files =
     (if clean then (\<lambda>p. if is_below dir p then None else files p) else files)"

definition save_dict :: "json \<Rightarrow> string \<Rightarrow> fs \<Rightarrow> fs" where
  "save_dict d path files = files(path \<mapsto> JsonFile d)"

definition load_dict :: "string \<Rightarrow> fs \<Rightarrow> py_error + json" where
  "load_dict path files =
     (case files path of
        None \<Rightarrow> Inl (FileNotFound path)
      | Some (JsonFile d) \<Rightarrow> Inr d
      | Some (PickleFile m) \<Rightarrow> Inl ValueError)"

definition joblib_dump :: "sk_model \<Rightarrow> string \<Rightarrow> fs \<Rightarrow> fs" where
  "joblib_dump m path files = files(path \<mapsto> PickleFile m)"

definition joblib_load :: "string \<Rightarrow> fs \<Rightarrow> py_error + sk_model" where
  "joblib_load path files =
     (case files path of
        None \<Rightarrow> Inl (FileNotFound path)
      | Some (PickleFile m) \<Rightarrow> Inr m
      | Some (JsonFile d) \<Rightarrow> Inl ValueError)"

text \<open>
  \<open>{v: k for k, v in class_mapping.items()}\<close>: every value becomes a key, so it must be
  hashable (a list or a dictionary is not, and raises \<open>TypeError\<close>); a later pair
  overwrites an equal key.
\<close>

fun hashable :: "json \<Rightarrow> bool" where
  "hashable (JList xs) = False"
| "hashable (JDict kvs) = False"
| "hashable v = True"

definition dict_set :: "'k \<Rightarrow> 'v \<Rightarrow> ('k \<times> 'v) list \<Rightarrow> ('k \<times> 'v) list" where
  "dict_set k v d =
     (if k \<in> fst ` set d then map (\<lambda>(k', v'). if k' = k then (k', v) else (k', v')) d
      else d @ [(k, v)])"

definition invert_mapping :: "(string \<times> json) list \<Rightarrow> py_error + (json \<times> string) list" where
  "invert_mapping items =
     (if \<forall>(k, v) \<in> set items. hashable v
      then Inr (foldl (\<lambda>d (k, v). dict_set v k d) [] items)
      else Inl TypeError)"

definition Classifier_save :: "Classifier \<Rightarrow> string \<Rightarrow> fs \<Rightarrow> fs" where
  "Classifier_save self model_path files =
     (let path_to_class_mapping = path_join model_path ''class_mapping.json'';
          path_to_pipeline_opt = path_join model_path ''pipeline_opt.json'';
          path_to_classifier = path_join model_path ''classifier.pkl'';
          files1 = check_n_make_dir model_path True files;
          files2 = save_dict (class_mapping self) path_to_class_mapping files1;
          files3 = save_dict (opt self) path_to_pipeline_opt files2
      in case classifier self of
           None \<Rightarrow> files3
         | Some m \<Rightarrow> joblib_dump m path_to_classifier files3)"

definition Classifier_load :: "Classifier \<Rightarrow> string \<Rightarrow> fs \<Rightarrow> py_error + Classifier" where
  "Classifier_load self model_path files =
     (let path_to_class_mapping = path_join model_path ''class_mapping.json'';
          path_to_pipeline_opt = path_join model_path ''pipeline_opt.json'';
          path_to_classifier = path_join model_path ''classifier.pkl''
      in case load_dict path_to_class_mapping files of
           Inl e \<Rightarrow> Inl e
         | Inr cm \<Rightarrow>
             (case load_dict path_to_pipeline_opt files of
                Inl e \<Rightarrow> Inl e
              | Inr pipeline_opt \<Rightarrow>
                  (case joblib_load path_to_classifier files of
                     Inl e \<Rightarrow> Inl e
                   | Inr m \<Rightarrow>
                       (let self' = self\<lparr> class_mapping := cm, opt := pipeline_opt, classifier := Some m \<rparr>
                        in case cm of
                             JNull \<Rightarrow> Inr self'
                           | JDict items \<Rightarrow>
                               (case invert_mapping items of
                                  Inl e \<Rightarrow> Inl e
                                | Inr inverted \<Rightarrow> Inr (self'\<lparr> class_mapping_inv := Some inverted \<rparr>))
                           | _ \<Rightarrow> Inl AttributeError))))"

text \<open>
  Estimators for concrete runs. \<open>row_model\<close> reads each input row as the class
  probabilities of that sample and predicts the position of the largest one;
  \<open>raising_model\<close> has \<open>predict_proba\<close> but the call fails; \<open>plain_model\<close> has no
  \<open>predict_proba\<close>.
\<close>

definition row_model :: sk_model where
  "row_model =
     \<lparr> predict_proba = Some (\<lambda>x. Inr x),
       sk_predict = (\<lambda>x. Inr (map (\<lambda>row. int (first_index row (max_list row))) x)) \<rparr>"

definition raising_model :: sk_model where
  "raising_model =
     \<lparr> predict_proba = Some (\<lambda>x. Inl ValueError),
       sk_predict = (\<lambda>x. Inr (map (\<lambda>row. 0) x)) \<rparr>"

definition plain_model :: sk_model where
  "plain_model =
     \<lparr> predict_proba = None,
       sk_predict = (\<lambda>x. Inr (map (\<lambda>row. 0) x)) \<rparr>"

definition fitted :: "sk_model \<Rightarrow> Classifier" where
  "fitted m = (Classifier_init (JDict [(''type'', JStr ''rf'')])
                 (JDict [(''cat'', JInt 0), (''dog'', JInt 1)])) \<lparr> classifier := Some m \<rparr>"

section \<open>machine\_learning/optimizing\_image\_classifier.py\<close>










text \<open>
  Collaborators for a concrete run. Images are shapes, the descriptor gives the two
  sides of the image as one row, an aggregator is a number added to every entry, a
  classifier is a pair of a threshold and the sum of the data it was fitted on, and
  the score of a classifier is its threshold. As \<open>np.concatenate\<close> does, the
  transformation raises \<open>ValueError\<close> on an empty feature list, and it raises on a
  tag without features. The tags of the run are twenty-one, so that the fixed split
  leaves tags on both sides.
\<close>

definition side_descriptor :: "feature_spec \<Rightarrow> nat \<times> nat \<Rightarrow> py_error + matrix option" where
  "side_descriptor feature img = Inr (Some [[real (fst img), real (snd img)]])"

definition stack_rows :: "matrix option list \<Rightarrow> matrix" where
  "stack_rows xs = concat (map (\<lambda>x. case x of None \<Rightarrow> [] | Some m \<Rightarrow> m) xs)"



definition demo_tags :: "(nat \<times> nat) tag list" where
  "demo_tags = [\<lparr>load_data = (2, 3), load_y = 0\<rparr>]"




section \<open>machine\_learning/outlier\_detector.py\<close>

subsection \<open>OutlierByDistance\<close>

text \<open>
  The distance-based outlier model as \<open>__init__\<close> creates it: no mean, no standard
  deviation and no distance bounds yet.
\<close>

record OutlierByDistance =
  x_mean :: "real list option"
  x_std :: "real list option"
  max_distance :: "real option"
  min_distance :: "real option"

definition OutlierByDistance_init :: OutlierByDistance where
  "OutlierByDistance_init =
     \<lparr> x_mean = None, x_std = None, max_distance = None, min_distance = None \<rparr>"

subsection \<open>OutlierDetectorAggregatorSearch\<close>

text \<open>
  The collaborators of the aggregator-tier outlier search: \<open>oext_remover_fit\<close> and
  \<open>oext_score_sample\<close> are \<open>remover.fit\<close> and \<open>remover.score_sample\<close> of the chosen
  outlier model, \<open>oext_roc_auc_score\<close> is the AUROC of the scores against the labels.
\<close>

record ('img, 'a, 'r) outlier_collaborators =
  oext_shape :: "'img \<Rightarrow> nat \<times> nat"
  oext_cv2_resize :: "'img \<Rightarrow> int \<times> int \<Rightarrow> py_error + 'img"
  oext_compute :: "feature_spec \<Rightarrow> 'img \<Rightarrow> py_error + matrix option"
  oext_fit_transform ::
    "'a \<Rightarrow> matrix option list \<Rightarrow> matrix option list \<Rightarrow> py_error + ('a \<times> matrix \<times> matrix)"
  oext_remover_fit :: "'r \<Rightarrow> matrix \<Rightarrow> int list \<Rightarrow> py_error + 'r"
  oext_score_sample :: "'r \<Rightarrow> matrix \<Rightarrow> py_error + real list"
  oext_roc_auc_score :: "int list \<Rightarrow> real list \<Rightarrow> py_error + real"

text \<open>The search object after \<open>new()\<close>.\<close>

record ('a, 'r) OutlierDetectorAggregatorSearch =
  od_class_mapping :: json
  od_feature_extractor :: FeatureExtractor
  od_aggregator_list :: "'a list"
  remover :: 'r

text \<open>What \<open>save\<close> writes to the model folder: class mapping, aggregator and outlier model.\<close>

record ('a, 'r) outlier_checkpoint =
  oc_class_mapping :: json
  oc_aggregator :: 'a
  oc_remover :: 'r

text \<open>
  The variables of \<open>fit\<close>: \<open>best_score\<close>, \<open>best_candidate\<close> (the position of the
  aggregator), \<open>final_aggregator\<close>, the outlier model object \<open>self.remover\<close> as the
  last \<open>fit\<close> left it (\<open>final_remover\<close> refers to the same object), and the model
  folder. \<open>od_evaluated\<close> lists the evaluated candidates, to state the properties.
\<close>

record ('a, 'r) outlier_state =
  od_best_score :: real
  od_best_candidate :: "nat option"
  final_aggregator :: "'a option"
  od_remover :: 'r
  od_model_folder :: "('a, 'r) outlier_checkpoint option"
  od_evaluated :: "(nat \<times> 'a \<times> 'r \<times> real) list"

text \<open>The statement \<open>if score > best_score: ...\<close> with the save it contains.\<close>

definition update_best_outlier ::
  "('a, 'r) OutlierDetectorAggregatorSearch \<Rightarrow> nat \<Rightarrow> 'a \<Rightarrow> real
     \<Rightarrow> ('a, 'r) outlier_state \<Rightarrow> ('a, 'r) outlier_state" where
  "update_best_outlier self i aggregator score st =
     (if score > od_best_score st
      then st\<lparr> od_best_score := score,
               od_best_candidate := Some i,
               final_aggregator := Some aggregator,
               od_model_folder := Some \<lparr> oc_class_mapping = od_class_mapping self,
                                         oc_aggregator = aggregator,
                                         oc_remover = od_remover st \<rparr> \<rparr>
      else st)"

fun outlier_aggregator_loop ::
  "('img, 'a, 'r) outlier_collaborators \<Rightarrow> ('a, 'r) OutlierDetectorAggregatorSearch
     \<Rightarrow> matrix option list \<Rightarrow> int list \<Rightarrow> matrix option list \<Rightarrow> int list \<Rightarrow> nat \<Rightarrow> 'a list
     \<Rightarrow> ('a, 'r) outlier_state \<Rightarrow> py_error + ('a, 'r) outlier_state" where
  "outlier_aggregator_loop ext self x y x_test y_test i [] st = Inr st"
| "outlier_aggregator_loop ext self x y x_test y_test i (aggregator # rest) st =
     (case oext_fit_transform ext aggregator x x_test of
        Inl e \<Rightarrow> Inl e
      | Inr (aggregator', x_transformed, x_transformed_test) \<Rightarrow>
          (case oext_remover_fit ext (od_remover st) x_transformed y of
             Inl e \<Rightarrow> Inl e
           | Inr remover' \<Rightarrow>
               (case oext_score_sample ext remover' x_transformed_test of
                  Inl e \<Rightarrow> Inl e
                | Inr y_rm \<Rightarrow>
                    (case oext_roc_auc_score ext y_test y_rm of
                       Inl e \<Rightarrow> Inl e
                     | Inr score \<Rightarrow>
                         outlier_aggregator_loop ext self x y x_test y_test (Suc i) rest
                           (update_best_outlier self i aggregator' score
                              (st\<lparr> od_remover := remover',
                                    od_evaluated := od_evaluated st
                                       @ [(i, aggregator', remover', score)] \<rparr>))))))"

text \<open>
  \<open>fit\<close>, from the tags of the two data sets on: extract the features, coerce every
  test label other than \<open>-1\<close> to \<open>1\<close>, run the loop, and return the best score. After
  the loop \<open>best_candidate.opt\<close> raises \<open>AttributeError\<close> when no candidate was recorded.
\<close>

definition OutlierDetectorAggregatorSearch_fit ::
  "('img, 'a, 'r) outlier_collaborators \<Rightarrow> ('a, 'r) OutlierDetectorAggregatorSearch
     \<Rightarrow> ('a, 'r) outlier_checkpoint option \<Rightarrow> 'img tag list \<Rightarrow> 'img tag list
     \<Rightarrow> py_error + (real \<times> ('a, 'r) outlier_state)" where
  "OutlierDetectorAggregatorSearch_fit ext self folder tags tags_test =
     (let st0 = \<lparr> od_best_score = 0, od_best_candidate = None, final_aggregator = None,
                  od_remover = remover self, od_model_folder = folder, od_evaluated = [] \<rparr>
      in case extract_trainings_data (od_feature_extractor self) (oext_shape ext)
                (oext_cv2_resize ext) (oext_compute ext) tags of
           Inl e \<Rightarrow> Inl e
         | Inr (x, y) \<Rightarrow>
             (case extract_trainings_data (od_feature_extractor self) (oext_shape ext)
                     (oext_cv2_resize ext) (oext_compute ext) tags_test of
                Inl e \<Rightarrow> Inl e
              | Inr (x_test, y_test0) \<Rightarrow>
                  (let y_test = map (\<lambda>v. if v \<noteq> - 1 then 1 else v) y_test0
                   in case outlier_aggregator_loop ext self x y x_test y_test 0
                             (od_aggregator_list self) st0 of
                        Inl e \<Rightarrow> Inl e
                      | Inr st \<Rightarrow>
                          (case od_best_candidate st of
                             None \<Rightarrow> Inl AttributeError
                           | Some cand \<Rightarrow> Inr (od_best_score st, st)))))"

text \<open>
  The score of an evaluated candidate, and the relation between the variables of
  \<open>fit\<close> and the candidates evaluated so far: the best score bounds every score; a
  recorded candidate was evaluated with the best score, no earlier candidate reached
  it, and the folder holds what was saved for it.
\<close>

definition od_score :: "nat \<times> 'a \<times> 'r \<times> real \<Rightarrow> real" where
  "od_score e = snd (snd (snd e))"

definition od_tracked ::
  "('a, 'r) OutlierDetectorAggregatorSearch \<Rightarrow> ('a, 'r) outlier_checkpoint option
     \<Rightarrow> ('a, 'r) outlier_state \<Rightarrow> bool" where
  "od_tracked self folder st \<longleftrightarrow>
     (\<forall>e \<in> set (od_evaluated st). od_score e \<le> od_best_score st)
     \<and> (case od_best_candidate st of
          None \<Rightarrow> od_model_folder st = folder \<and> od_best_score st = 0
        | Some i \<Rightarrow>
            (\<exists>pre a r post.
               od_evaluated st = pre @ (i, a, r, od_best_score st) # post
               \<and> (\<forall>e \<in> set pre. od_score e < od_best_score st)
               \<and> 0 < od_best_score st
               \<and> od_model_folder st
                   = Some \<lparr> oc_class_mapping = od_class_mapping self,
                            oc_aggregator = a, oc_remover = r \<rparr>))"

text \<open>
  Collaborators for a concrete outlier search: the outlier model is the distance
  model above, an aggregator is a number added to every entry, and the score of a
  candidate is that number divided by four, capped at one half.
\<close>

definition demo_outlier_collaborators ::
  "(nat \<times> nat, real, OutlierByDistance) outlier_collaborators" where
  "demo_outlier_collaborators =
     \<lparr> oext_shape = shape_of,
       oext_cv2_resize = cv2_resize_shape,
       oext_compute = side_descriptor,
       oext_fit_transform =
         (\<lambda>a x x_test.
            Inr (a, map (map (\<lambda>v. v + a)) (stack_rows x),
                    map (map (\<lambda>v. v + a)) (stack_rows x_test))),
       oext_remover_fit = (\<lambda>r x y. Inr (r\<lparr> x_mean := Some (map (\<lambda>row. 0) (hd x)) \<rparr>)),
       oext_score_sample = (\<lambda>r x. Inr (map hd x)),
       oext_roc_auc_score = (\<lambda>y_test y_rm. Inr (min (1 / 2) ((hd y_rm - 2) / 4))) \<rparr>"

definition demo_outlier_search :: "(real, OutlierByDistance) OutlierDetectorAggregatorSearch" where
  "demo_outlier_search =
     \<lparr> od_class_mapping = JDict [(''cat'', JInt 0)],
       od_feature_extractor =
         FeatureExtractor_init (FName ''hog'') True ''dense'' 20 20 None None ''standard'',
       od_aggregator_list = [0, 2, 3, 1],
       remover = OutlierByDistance_init \<rparr>"

section \<open>Properties of the fixed split\<close>

lemma split_fixed_loop_fifth:
  "split_fixed_loop i tags (1 / 5) (tr, te) =
     (tr @ drop (20 - i) tags, te @ take (20 - i) tags)"
proof (induction tags arbitrary: i tr te)
  case Nil
  show ?case by simp
next
  case (Cons tag tags)
  show ?case
  proof (cases "20 \<le> i")
    case True
    then have "(1 / 5 :: rat) \<le> rat_of_nat i / 100"
      by (simp add: field_simps)
    with True Cons.IH [of "Suc i"] show ?thesis by simp
  next
    case False
    then have "\<not> (1 / 5 :: rat) \<le> rat_of_nat i / 100"
      by (simp add: field_simps)
    moreover from False have "20 - i = Suc (20 - Suc i)" by simp
    ultimately show ?thesis using Cons.IH [of "Suc i"] by simp
  qed
qed

text \<open>
  Claim C7. For a list of exactly 100 tags and ratio 0.2, \<open>split_fixed\<close>, and
  \<open>split_tags\<close> in mode \<open>fixed\<close> whatever random draws are supplied, put the tags at
  positions 0 to 19 into the test list and those at positions 20 to 99 into the train
  list, each in its original order. Both are functions of their arguments alone, so
  the result does not depend on earlier calls.
\<close>

theorem split_fixed_100_tags:
  assumes "length tags = 100"
  shows "split_fixed tags (1 / 5) = (drop 20 tags, take 20 tags)
    \<and> split_tags tags ds (1 / 5) ''fixed'' = Inr (drop 20 tags, take 20 tags)
    \<and> (\<forall>i < 20. snd (split_fixed tags (1 / 5)) ! i = tags ! i)
    \<and> (\<forall>i < 80. fst (split_fixed tags (1 / 5)) ! i = tags ! (20 + i))
    \<and> length (snd (split_fixed tags (1 / 5))) = 20
    \<and> length (fst (split_fixed tags (1 / 5))) = 80"
  using assms by (simp add: split_fixed_def split_tags_def split_fixed_loop_fifth)

theorem split_fixed_100_tags_witness:
  "length [0 ..< 100] = 100
   \<and> split_fixed [0 ..< 100] (1 / 5) = ([20 ..< 100], [0 ..< 20])
   \<and> split_tags [0 ..< 100] [] (1 / 5) ''fixed'' = Inr ([20 ..< 100], [0 ..< 20])"
  using split_fixed_100_tags [of "[0 ..< 100]" "[]"] by simp

section \<open>Properties of the feature extractor\<close>

lemma feature_spec_not_self_wrapped: "v \<noteq> FList [v]"
proof
  assume "v = FList [v]"
  then have "size v = size (FList [v])" by simp
  then show False by simp
qed

lemma init_fields:
  "features_to_use (FeatureExtractor_init v nrm sm steps window h w ropt) = FList [v]"
  "img_height (FeatureExtractor_init v nrm sm steps window h w ropt) = h"
  "img_width (FeatureExtractor_init v nrm sm steps window h w ropt) = w"
  by (cases v;
      simp add: FeatureExtractor_init_def validate_feature_extraction_settings_def
        is_not_def Let_def)+

text \<open>
  Claim C10. Whatever value \<open>v\<close> is passed as \<open>features_to_use\<close>, a name or already a
  list of names, the constructor stores the one-element list \<open>[v]\<close>: the test
  \<open>type(v) is not list()\<close> compares a class object with a new list and always holds.
  The stored value is therefore never the passed value itself.
\<close>

theorem features_to_use_always_wrapped:
  "features_to_use (FeatureExtractor_init v nrm sm steps window h w ropt) = FList [v]
   \<and> features_to_use (FeatureExtractor_init (FList names) nrm sm steps window h w ropt)
       = FList [FList names]
   \<and> features_to_use (FeatureExtractor_init v nrm sm steps window h w ropt) \<noteq> v"
  using feature_spec_not_self_wrapped [of v]
  by (cases v)
     (simp_all add: FeatureExtractor_init_def validate_feature_extraction_settings_def
        is_not_def Let_def)

theorem features_to_use_always_wrapped_witness:
  "features_to_use
     (FeatureExtractor_init (FList [FName ''sift'', FName ''hog'']) True ''dense'' 20 20
        None None ''standard'')
   = FList [FList [FName ''sift'', FName ''hog'']]"
  using features_to_use_always_wrapped
    [of "FList [FName ''sift'', FName ''hog'']" True "''dense''" 20 20 None None "''standard''"]
  by simp

subsection \<open>resize\<close>

lemma resize_both_unset: "resize shape cv2_resize img None None = Inr img"
  by (simp add: resize_def)

lemma resize_both_absolute:
  "1 \<le> h \<Longrightarrow> 1 \<le> w \<Longrightarrow>
   resize shape cv2_resize img (Some h) (Some w) = cv2_resize img (py_int w, py_int h)"
  by (simp add: resize_def lt_one_or_def lt_one_def split: prod.splits)

lemma py_int_of_int: "py_int (of_int k) = k"
  by (simp add: py_int_def)

lemma resize_fraction:
  "h < 1 \<or> w < 1 \<Longrightarrow> shape img = (o_height, o_width) \<Longrightarrow>
   resize shape cv2_resize img (Some h) (Some w)
   = cv2_resize img (py_int (real o_width * w), py_int (real o_height * h))"
  by (cases "h < 1")
     (simp_all add: resize_def lt_one_or_def lt_one_def times_dim_def py_int_of_int)

text \<open>
  Claim C5. With both dimensions unset the image is returned unchanged, with both
  absolute it is resized to exactly those dimensions, and with a fraction below one
  both original dimensions are multiplied by the configured values
  (\<open>resize_both_unset\<close>, \<open>resize_both_absolute\<close>, \<open>resize_fraction\<close>). With exactly
  one dimension unset the comparison \<open>height < 1 or width < 1\<close> is evaluated before
  the branches that infer the missing dimension, and comparing or multiplying \<open>None\<close>
  raises \<open>TypeError\<close>: no image is returned.
\<close>

theorem resize_one_dimension_unset:
  "resize shape cv2_resize img None (Some w) = Inl TypeError
   \<and> resize shape cv2_resize img (Some h) None = Inl TypeError
   \<and> resize shape_of cv2_resize_shape (200, 400) None (Some 100) = Inl TypeError"
  by (cases "h < 1")
     (simp_all add: resize_def lt_one_or_def lt_one_def times_dim_def split: prod.splits)

subsection \<open>extract\_x and extract\_trainings\_data\<close>

lemma extract_x_loop_no_descriptor:
  "extract_x_loop no_descriptor img features x = Inr x"
  by (induction features arbitrary: x) (simp_all add: no_descriptor_def)

lemma extract_x_no_descriptor:
  "img_height self = None \<Longrightarrow> img_width self = None \<Longrightarrow>
   extract_x self shape cv2_resize no_descriptor img = Inr None"
  by (simp add: extract_x_def resize_def extract_x_loop_no_descriptor)

lemma extract_loop_no_descriptor:
  "img_height self = None \<Longrightarrow> img_width self = None \<Longrightarrow>
   extract_trainings_data_loop self shape cv2_resize no_descriptor tags (x, y)
   = Inr (x @ map (\<lambda>t. None) tags, y @ map load_y tags)"
  by (induction tags arbitrary: x y) (simp_all add: extract_x_no_descriptor)

lemma extract_trainings_data_no_assertion:
  "extract_trainings_data self shape cv2_resize compute tags \<noteq> Inl (AssertionError msg)
   \<or> extract_trainings_data_loop self shape cv2_resize compute tags ([], [])
       = Inl (AssertionError msg)"
  by (auto simp add: extract_trainings_data_def split: sum.splits)

text \<open>
  Claim C2. A tag for which no configured descriptor yields features contributes the
  marker \<open>None\<close>. The assertion after the loop tests the list \<open>x\<close> itself, which is
  never \<open>None\<close>: for a batch in which every tag yields no representation the call
  returns the list of \<open>None\<close> markers with the labels and raises nothing.
\<close>

theorem extract_trainings_data_all_none:
  "extract_trainings_data (FeatureExtractor_init v nrm sm steps window None None ropt)
      shape cv2_resize no_descriptor tags
   = Inr (map (\<lambda>t. None) tags, map load_y tags)
   \<and> extract_trainings_data
        (FeatureExtractor_init (FName ''hog'') True ''dense'' 20 20 None None ''standard'')
        shape_of cv2_resize_shape no_descriptor
        [\<lparr>load_data = (200, 400), load_y = 1\<rparr>, \<lparr>load_data = (100, 100), load_y = 0\<rparr>]
      = Inr ([None, None], [1, 0])"
  by (simp add: extract_trainings_data_def extract_loop_no_descriptor init_fields
        del: extract_trainings_data_loop.simps)

section \<open>Properties of the classifier\<close>

lemma max_list_Max: "xs \<noteq> [] \<Longrightarrow> max_list xs = Max (set xs)"
  by (induction xs rule: max_list.induct) (simp_all)

lemma first_index_props:
  "v \<in> set xs \<Longrightarrow>
   first_index xs v < length xs \<and> xs ! first_index xs v = v
   \<and> (\<forall>j < first_index xs v. xs ! j \<noteq> v)"
proof (induction xs)
  case Nil then show ?case by simp
next
  case (Cons w ws)
  show ?case
  proof (cases "w = v")
    case True then show ?thesis by simp
  next
    case False
    with Cons have IH: "first_index ws v < length ws \<and> ws ! first_index ws v = v
       \<and> (\<forall>j < first_index ws v. ws ! j \<noteq> v)" by simp
    show ?thesis using False IH by (auto simp: nth_Cons split: nat.splits)
  qed
qed

lemma predict_try_fails_iff:
  assumes "classifier self = Some m"
  shows "(\<exists>e. predict_try self x = Inl e) \<longleftrightarrow>
     (predict_proba m = None
      \<or> (\<exists>proba. predict_proba m = Some proba
            \<and> ((\<exists>e. proba x = Inl e) \<or> (\<exists>prob. proba x = Inr prob \<and> concat prob = []))))"
  using assms
  by (auto simp add: predict_try_def np_argmax_def np_max_def split: option.splits sum.splits)

text \<open>
  Claim C3, as the code has it. For a fitted classifier, \<open>predict(x, get_confidence=True)\<close>
  takes the full-confidence fallback exactly when the \<open>try\<close> block raises, whatever
  the reason: the estimator has no \<open>predict_proba\<close>, or \<open>predict_proba(x)\<close> raises, or
  it returns an empty array on which \<open>np.argmax\<close> raises. The fallback returns the
  labels of \<open>predict(x)\<close> with confidence 1; otherwise the result of the \<open>try\<close> block
  is returned.
\<close>

theorem predict_fallback_iff:
  assumes "classifier self = Some m"
  shows "((\<exists>e. predict_try self x = Inl e) \<longleftrightarrow>
           (predict_proba m = None
            \<or> (\<exists>proba. predict_proba m = Some proba
                  \<and> ((\<exists>e. proba x = Inl e)
                      \<or> (\<exists>prob. proba x = Inr prob \<and> concat prob = [])))))
    \<and> ((\<exists>e. predict_try self x = Inl e) \<longrightarrow>
          Classifier_predict self x True = predict_except self x
          \<and> predict_except self x
              = (case sk_predict m x of Inl e \<Rightarrow> Inl e
                 | Inr labels \<Rightarrow> Inr (WithConfidence labels 1)))
    \<and> ((\<forall>e. predict_try self x \<noteq> Inl e) \<longrightarrow>
          Classifier_predict self x True = predict_try self x)"
  using predict_try_fails_iff [OF assms, of x] assms
  by (auto simp add: Classifier_predict_def predict_except_def split: sum.splits)

theorem predict_fallback_iff_witness:
  "classifier (fitted plain_model) = Some plain_model
   \<and> Classifier_predict (fitted plain_model) [[1 / 2, 1 / 2]] True
       = Inr (WithConfidence [0] 1)"
  using predict_fallback_iff [of "fitted plain_model" plain_model "[[1 / 2, 1 / 2]]"]
  by (simp add: fitted_def plain_model_def predict_try_def)

text \<open>
  The claim as stated fails: an estimator that has \<open>predict_proba\<close>, whose call
  raises, still gets the full-confidence fallback.
\<close>

theorem predict_fallback_counterexample:
  "predict_proba raising_model \<noteq> None
   \<and> Classifier_predict (fitted raising_model) [[1 / 2, 1 / 2]] True
       = predict_except (fitted raising_model) [[1 / 2, 1 / 2]]
   \<and> Classifier_predict (fitted raising_model) [[1 / 2, 1 / 2]] True
       = Inr (WithConfidence [0] 1)"
  by (simp add: fitted_def raising_model_def Classifier_predict_def predict_try_def
        predict_except_def)

text \<open>
  The value of the \<open>try\<close> block when \<open>predict_proba(x)\<close> succeeds with a non-empty
  array: the first row-major position of the largest entry of the whole array, with
  that entry. For one row, and an estimator whose \<open>predict\<close> returns the position of
  the largest probability of the row, it is the label that \<open>predict(x)\<close> returns.
\<close>

lemma predict_try_value:
  assumes "classifier self = Some m" and "predict_proba m = Some proba"
    and "proba x = Inr prob" and "concat prob \<noteq> []"
  shows "Classifier_predict self x True
           = Inr (WithConfidence [int (first_index (concat prob) (Max (set (concat prob))))]
                    (Max (set (concat prob))))
    \<and> first_index (concat prob) (Max (set (concat prob))) < length (concat prob)
    \<and> concat prob ! first_index (concat prob) (Max (set (concat prob)))
        = Max (set (concat prob))
    \<and> (\<forall>j < first_index (concat prob) (Max (set (concat prob))).
          concat prob ! j < Max (set (concat prob)))
    \<and> (\<forall>row. prob = [row]
          \<and> sk_predict m x = Inr [int (first_index row (Max (set row)))]
        \<longrightarrow> Classifier_predict self x False
              = Inr (Labels [int (first_index (concat prob) (Max (set (concat prob))))]))"
proof -
  let ?p = "concat prob" and ?M = "Max (set (concat prob))"
  have M: "max_list ?p = ?M" using assms(4) by (rule max_list_Max)
  have "?M \<in> set ?p" using assms(4) by (simp add: Max_in del: set_concat)
  note fi = first_index_props [OF this]
  have below: "\<forall>j < first_index ?p ?M. ?p ! j < ?M"
  proof (intro allI impI)
    fix j assume j: "j < first_index ?p ?M"
    with fi have "j < length ?p" and "?p ! j \<noteq> ?M" by auto
    moreover from \<open>j < length ?p\<close> have "?p ! j \<le> ?M" by (simp add: Max_ge del: set_concat)
    ultimately show "?p ! j < ?M" by simp
  qed
  have conf: "Classifier_predict self x True = Inr (WithConfidence [int (first_index ?p ?M)] ?M)"
    using assms M
    by (simp add: Classifier_predict_def predict_try_def np_argmax_def np_max_def
          del: set_concat concat_eq_Nil_conv)
  have single: "\<forall>row. prob = [row]
          \<and> sk_predict m x = Inr [int (first_index row (Max (set row)))]
        \<longrightarrow> Classifier_predict self x False = Inr (Labels [int (first_index ?p ?M)])"
    using assms(1) by (auto simp add: Classifier_predict_def)
  show ?thesis using conf fi below single by blast
qed

lemma predict_single_row_example:
  "Classifier_predict (fitted row_model) [[1 / 5, 4 / 5]] True
     = Inr (WithConfidence [1] (4 / 5))
   \<and> Classifier_predict (fitted row_model) [[1 / 5, 4 / 5]] False = Inr (Labels [1])"
  using predict_try_value
    [of "fitted row_model" row_model "\<lambda>x. Inr x" "[[1 / 5, 4 / 5]]" "[[1 / 5, 4 / 5]]"]
  by (simp add: fitted_def row_model_def)

text \<open>
  Claim C4. With a model that estimates probabilities, \<open>predict\<close> with confidence is
  to return the label that \<open>predict(x)\<close> returns, with the largest class probability
  of that prediction. On a batch of two rows the \<open>try\<close> block returns one position in
  the flattened probability array instead: for the probabilities
  \<open>[[0.4, 0.6], [0.1, 0.9]]\<close> it returns \<open>[3]\<close>, which is no class index, where
  \<open>predict(x)\<close> returns \<open>[1, 1]\<close>, and for \<open>[[0.9, 0.1], [0.2, 0.8]]\<close> it returns \<open>[0]\<close>
  where \<open>predict(x)\<close> returns \<open>[0, 1]\<close>. The \<open>except\<close> branch of the same method
  returns the labels of \<open>predict(x)\<close>, one per row.
\<close>

theorem predict_confidence_on_batch:
  "predict_proba row_model \<noteq> None
   \<and> Classifier_predict (fitted row_model) [[2 / 5, 3 / 5], [1 / 10, 9 / 10]] True
       = Inr (WithConfidence [3] (9 / 10))
   \<and> Classifier_predict (fitted row_model) [[2 / 5, 3 / 5], [1 / 10, 9 / 10]] False
       = Inr (Labels [1, 1])
   \<and> Classifier_predict (fitted row_model) [[9 / 10, 1 / 10], [1 / 5, 4 / 5]] True
       = Inr (WithConfidence [0] (9 / 10))
   \<and> Classifier_predict (fitted row_model) [[9 / 10, 1 / 10], [1 / 5, 4 / 5]] False
       = Inr (Labels [0, 1])
   \<and> Classifier_predict (fitted raising_model) [[9 / 10, 1 / 10], [1 / 5, 4 / 5]] True
       = Inr (WithConfidence [0, 0] 1)"
  by (simp add: fitted_def row_model_def raising_model_def Classifier_predict_def
        predict_try_def predict_except_def np_argmax_def np_max_def)

lemma path_join_distinct:
  "path_join p ''class_mapping.json'' \<noteq> path_join p ''pipeline_opt.json''"
  "path_join p ''class_mapping.json'' \<noteq> path_join p ''classifier.pkl''"
  "path_join p ''pipeline_opt.json'' \<noteq> path_join p ''classifier.pkl''"
  by (simp_all add: path_join_def)

lemma predict_depends_on_classifier:
  assumes "classifier c = classifier c'"
  shows "Classifier_predict c x get_confidence = Classifier_predict c' x get_confidence"
  unfolding Classifier_predict_def predict_try_def predict_except_def assms
  by (rule refl)

lemma load_after_save:
  assumes "classifier self = Some m"
  shows "Classifier_load fresh model_path (Classifier_save self model_path files)
    = (let self' = fresh\<lparr> class_mapping := class_mapping self, opt := opt self,
                          classifier := Some m \<rparr>
       in case class_mapping self of
            JNull \<Rightarrow> Inr self'
          | JDict items \<Rightarrow>
              (case invert_mapping items of
                 Inl e \<Rightarrow> Inl e
               | Inr inverted \<Rightarrow> Inr (self'\<lparr> class_mapping_inv := Some inverted \<rparr>))
          | _ \<Rightarrow> Inl AttributeError)"
  using assms path_join_distinct [of model_path]
  by (simp add: Classifier_load_def Classifier_save_def Let_def save_dict_def
        load_dict_def joblib_dump_def joblib_load_def)

lemma load_unhashable_mapping:
  assumes "classifier self = Some m" and "class_mapping self = JDict items"
    and "(k, v) \<in> set items" and "\<not> hashable v"
  shows "Classifier_load fresh model_path (Classifier_save self model_path files)
    = Inl TypeError"
proof -
  from assms(3,4) have "invert_mapping items = Inl TypeError"
    by (auto simp add: invert_mapping_def)
  with assms(2) show ?thesis by (simp add: load_after_save [OF assms(1)] Let_def)
qed

text \<open>
  Claim C9. For a fitted classifier whose class mapping is \<open>None\<close> or a dictionary
  with hashable values (label ids), \<open>save\<close> to a path followed by \<open>load\<close> from that
  path on any other classifier object succeeds and restores the class mapping, the
  options and the estimator; the loaded classifier gives the same result as the
  original for every input and both values of \<open>get_confidence\<close>.
\<close>

theorem save_load_round_trip:
  assumes "classifier self = Some m"
    and "class_mapping self = JNull
         \<or> (\<exists>items. class_mapping self = JDict items \<and> (\<forall>(k, v) \<in> set items. hashable v))"
  shows "\<exists>c. Classifier_load fresh model_path (Classifier_save self model_path files) = Inr c
    \<and> classifier c = Some m \<and> class_mapping c = class_mapping self \<and> opt c = opt self
    \<and> (\<forall>x get_confidence.
          Classifier_predict c x get_confidence = Classifier_predict self x get_confidence)"
proof -
  from assms(2) obtain c where
    c: "Classifier_load fresh model_path (Classifier_save self model_path files) = Inr c"
      "classifier c = Some m" "class_mapping c = class_mapping self" "opt c = opt self"
    by (auto simp add: load_after_save [OF assms(1)] Let_def invert_mapping_def)
  from c(2) assms(1) have "classifier c = classifier self" by simp
  then have "\<forall>x get_confidence.
      Classifier_predict c x get_confidence = Classifier_predict self x get_confidence"
    by (intro allI predict_depends_on_classifier)
  with c show ?thesis by blast
qed

theorem save_load_round_trip_witness:
  "\<exists>c. Classifier_load (Classifier_init JNull JNull) ''model''
          (Classifier_save (fitted row_model) ''model'' Map.empty) = Inr c
    \<and> classifier c = Some row_model
    \<and> class_mapping c = JDict [(''cat'', JInt 0), (''dog'', JInt 1)]
    \<and> (\<forall>x get_confidence. Classifier_predict c x get_confidence
          = Classifier_predict (fitted row_model) x get_confidence)"
proof -
  have "classifier (fitted row_model) = Some row_model"
    by (simp add: fitted_def)
  moreover have cm: "class_mapping (fitted row_model) = JDict [(''cat'', JInt 0), (''dog'', JInt 1)]"
    by (simp add: fitted_def Classifier_init_def)
  moreover have "class_mapping (fitted row_model) = JNull
      \<or> (\<exists>items. class_mapping (fitted row_model) = JDict items
            \<and> (\<forall>(k, v) \<in> set items. hashable v))"
    unfolding cm by simp
  ultimately show ?thesis
    using save_load_round_trip
      [of "fitted row_model" row_model "Classifier_init JNull JNull" "''model''" Map.empty]
    by metis
qed

section \<open>Properties of the supervised search\<close>










subsection \<open>A run of the search\<close>









section \<open>Properties of the outlier aggregator search\<close>

lemma update_best_outlier_cases:
  "od_best_score st < score \<Longrightarrow>
     update_best_outlier self i a score st
       = st\<lparr> od_best_score := score, od_best_candidate := Some i,
              final_aggregator := Some a,
              od_model_folder := Some \<lparr> oc_class_mapping = od_class_mapping self,
                                        oc_aggregator = a, oc_remover = od_remover st \<rparr> \<rparr>"
  "score \<le> od_best_score st \<Longrightarrow> update_best_outlier self i a score st = st"
  by (simp_all add: update_best_outlier_def)

lemma update_best_outlier_changes_iff:
  "update_best_outlier self i a score st \<noteq> st \<longleftrightarrow> od_best_score st < score"
proof
  assume "update_best_outlier self i a score st \<noteq> st"
  then show "od_best_score st < score"
    by (auto simp add: update_best_outlier_def split: if_splits)
next
  assume lt: "od_best_score st < score"
  then have "od_best_score (update_best_outlier self i a score st) = score"
    by (simp add: update_best_outlier_def)
  with lt show "update_best_outlier self i a score st \<noteq> st" by auto
qed

lemma od_tracked_step:
  assumes "od_tracked self folder st"
  shows "od_tracked self folder
           (update_best_outlier self i a score
              (st\<lparr> od_remover := r, od_evaluated := od_evaluated st @ [(i, a, r, score)] \<rparr>))"
proof (cases "od_best_score st < score")
  case True
  have "\<exists>pre a' r' post. od_evaluated st @ [(i, a, r, score)] = pre @ (i, a', r', score) # post
      \<and> (\<forall>e \<in> set pre. od_score e < score)
      \<and> Some \<lparr> oc_class_mapping = od_class_mapping self, oc_aggregator = a, oc_remover = r \<rparr>
          = Some \<lparr> oc_class_mapping = od_class_mapping self, oc_aggregator = a',
                   oc_remover = r' \<rparr>"
    by (rule exI [of _ "od_evaluated st"], rule exI [of _ a], rule exI [of _ r],
        rule exI [of _ "[]"]) (use True assms in \<open>auto simp add: od_tracked_def\<close>)
  moreover from assms True have "0 < score"
    by (auto simp add: od_tracked_def split: option.splits)
  ultimately show ?thesis using True assms
    by (auto simp add: od_tracked_def update_best_outlier_cases od_score_def)
next
  case False
  then have le: "score \<le> od_best_score st" by simp
  show ?thesis
  proof (cases "od_best_candidate st")
    case None
    with assms le show ?thesis
      by (auto simp add: od_tracked_def update_best_outlier_cases od_score_def)
  next
    case (Some i0)
    with assms obtain pre a0 r0 post where
      ev: "od_evaluated st = pre @ (i0, a0, r0, od_best_score st) # post"
      and pre: "\<forall>e \<in> set pre. od_score e < od_best_score st"
      and pos: "0 < od_best_score st"
      and mf: "od_model_folder st
         = Some \<lparr> oc_class_mapping = od_class_mapping self, oc_aggregator = a0,
                  oc_remover = r0 \<rparr>"
      by (auto simp add: od_tracked_def)
    have "\<exists>pre' a' r' post'.
        od_evaluated st @ [(i, a, r, score)] = pre' @ (i0, a', r', od_best_score st) # post'
        \<and> (\<forall>e \<in> set pre'. od_score e < od_best_score st)
        \<and> 0 < od_best_score st
        \<and> od_model_folder st
            = Some \<lparr> oc_class_mapping = od_class_mapping self, oc_aggregator = a',
                     oc_remover = r' \<rparr>"
      by (rule exI [of _ pre], rule exI [of _ a0], rule exI [of _ r0],
          rule exI [of _ "post @ [(i, a, r, score)]"])
         (use ev pre pos mf in simp)
    with assms le Some show ?thesis
      by (auto simp add: od_tracked_def update_best_outlier_cases od_score_def)
  qed
qed

lemma outlier_aggregator_loop_tracked:
  "outlier_aggregator_loop ext self x y x_test y_test i aggs st = Inr st' \<Longrightarrow>
   od_tracked self folder st \<Longrightarrow> od_tracked self folder st'"
proof (induction aggs arbitrary: i st)
  case Nil
  then show ?case by simp
next
  case (Cons agg rest)
  from Cons.prems(1) obtain agg' r' score where
    rec: "outlier_aggregator_loop ext self x y x_test y_test (Suc i) rest
        (update_best_outlier self i agg' score
           (st\<lparr> od_remover := r',
                 od_evaluated := od_evaluated st @ [(i, agg', r', score)] \<rparr>)) = Inr st'"
    by (auto split: sum.splits prod.splits)
  from Cons.IH [OF rec od_tracked_step [OF Cons.prems(2)]] show ?case .
qed

lemma od_tracked_initial:
  "od_tracked self folder
     \<lparr> od_best_score = 0, od_best_candidate = None, final_aggregator = None,
       od_remover = r, od_model_folder = folder, od_evaluated = [] \<rparr>"
  by (simp add: od_tracked_def)

lemma outlier_fit_tracked:
  assumes "OutlierDetectorAggregatorSearch_fit ext self folder tags tags_test = Inr (score, st)"
  shows "score = od_best_score st \<and> od_tracked self folder st \<and> od_best_candidate st \<noteq> None"
proof -
  from assms obtain x y x_test y_test where
    "outlier_aggregator_loop ext self x y x_test y_test 0 (od_aggregator_list self)
       \<lparr> od_best_score = 0, od_best_candidate = None, final_aggregator = None,
         od_remover = remover self, od_model_folder = folder, od_evaluated = [] \<rparr>
     = Inr st"
    and "od_best_candidate st \<noteq> None" and "score = od_best_score st"
    by (auto simp add: OutlierDetectorAggregatorSearch_fit_def Let_def
          split: sum.splits prod.splits option.splits)
  with outlier_aggregator_loop_tracked [OF this(1) od_tracked_initial] show ?thesis by simp
qed

text \<open>
  Claim C6. In the aggregator-tier outlier search a candidate changes the recorded
  best exactly when its AUROC is strictly greater than the current best score; a
  candidate whose AUROC equals the current best leaves everything as it was. When
  \<open>fit\<close> returns, the recorded candidate is therefore the first evaluated candidate
  with the best score, and the model folder holds what was saved for it.
\<close>

theorem outlier_best_strictly_greater:
  "(update_best_outlier self i a score st \<noteq> st \<longleftrightarrow> od_best_score st < score)
   \<and> (od_best_score st < score \<longrightarrow>
        update_best_outlier self i a score st
          = st\<lparr> od_best_score := score, od_best_candidate := Some i,
                 final_aggregator := Some a,
                 od_model_folder := Some \<lparr> oc_class_mapping = od_class_mapping self,
                                           oc_aggregator = a, oc_remover = od_remover st \<rparr> \<rparr>)
   \<and> (score = od_best_score st \<longrightarrow> update_best_outlier self i a score st = st)
   \<and> (OutlierDetectorAggregatorSearch_fit ext self folder tags tags_test = Inr (best, st') \<longrightarrow>
        best = od_best_score st' \<and> 0 < best
        \<and> (\<forall>e \<in> set (od_evaluated st'). od_score e \<le> best)
        \<and> (\<exists>i' a' r' pre post.
              od_best_candidate st' = Some i'
              \<and> od_evaluated st' = pre @ (i', a', r', best) # post
              \<and> (\<forall>e \<in> set pre. od_score e < best)
              \<and> od_model_folder st'
                  = Some \<lparr> oc_class_mapping = od_class_mapping self, oc_aggregator = a',
                           oc_remover = r' \<rparr>))"
proof -
  have run: "OutlierDetectorAggregatorSearch_fit ext self folder tags tags_test = Inr (best, st') \<longrightarrow>
        best = od_best_score st' \<and> 0 < best
        \<and> (\<forall>e \<in> set (od_evaluated st'). od_score e \<le> best)
        \<and> (\<exists>i' a' r' pre post.
              od_best_candidate st' = Some i'
              \<and> od_evaluated st' = pre @ (i', a', r', best) # post
              \<and> (\<forall>e \<in> set pre. od_score e < best)
              \<and> od_model_folder st'
                  = Some \<lparr> oc_class_mapping = od_class_mapping self, oc_aggregator = a',
                           oc_remover = r' \<rparr>)"
  proof
    assume "OutlierDetectorAggregatorSearch_fit ext self folder tags tags_test = Inr (best, st')"
    from outlier_fit_tracked [OF this] have sc: "best = od_best_score st'"
      and tr: "od_tracked self folder st'" and bc: "od_best_candidate st' \<noteq> None"
      by simp_all
    from bc obtain i' where i': "od_best_candidate st' = Some i'" by auto
    from tr i' obtain pre a' r' post where
      "od_evaluated st' = pre @ (i', a', r', od_best_score st') # post"
      "\<forall>e \<in> set pre. od_score e < od_best_score st'"
      "0 < od_best_score st'"
      "od_model_folder st'
         = Some \<lparr> oc_class_mapping = od_class_mapping self, oc_aggregator = a',
                  oc_remover = r' \<rparr>"
      by (auto simp add: od_tracked_def)
    with i' sc have "0 < best" and "\<exists>i' a' r' pre post.
              od_best_candidate st' = Some i'
              \<and> od_evaluated st' = pre @ (i', a', r', best) # post
              \<and> (\<forall>e \<in> set pre. od_score e < best)
              \<and> od_model_folder st'
                  = Some \<lparr> oc_class_mapping = od_class_mapping self, oc_aggregator = a',
                           oc_remover = r' \<rparr>"
      by blast+
    moreover from tr sc have "\<forall>e \<in> set (od_evaluated st'). od_score e \<le> best"
      by (simp add: od_tracked_def)
    ultimately show "best = od_best_score st' \<and> 0 < best
        \<and> (\<forall>e \<in> set (od_evaluated st'). od_score e \<le> best)
        \<and> (\<exists>i' a' r' pre post.
              od_best_candidate st' = Some i'
              \<and> od_evaluated st' = pre @ (i', a', r', best) # post
              \<and> (\<forall>e \<in> set pre. od_score e < best)
              \<and> od_model_folder st'
                  = Some \<lparr> oc_class_mapping = od_class_mapping self, oc_aggregator = a',
                           oc_remover = r' \<rparr>)"
      using sc by blast
  qed
  show ?thesis
    using update_best_outlier_changes_iff [where st = st and self = self and i = i and a = a
        and score = score]
      update_best_outlier_cases [where st = st and self = self and i = i and a = a
        and score = score] run
    by (metis order_refl)
qed

lemma demo_outlier_run:
  "OutlierDetectorAggregatorSearch_fit demo_outlier_collaborators demo_outlier_search None
      demo_tags demo_tags
   = Inr (1 / 2,
       \<lparr> od_best_score = 1 / 2, od_best_candidate = Some 1, final_aggregator = Some 2,
         od_remover = OutlierByDistance_init\<lparr> x_mean := Some [0, 0] \<rparr>,
         od_model_folder
           = Some \<lparr> oc_class_mapping = JDict [(''cat'', JInt 0)], oc_aggregator = 2,
                    oc_remover = OutlierByDistance_init\<lparr> x_mean := Some [0, 0] \<rparr> \<rparr>,
         od_evaluated
           = [(0, 0, OutlierByDistance_init\<lparr> x_mean := Some [0, 0] \<rparr>, 0),
              (1, 2, OutlierByDistance_init\<lparr> x_mean := Some [0, 0] \<rparr>, 1 / 2),
              (2, 3, OutlierByDistance_init\<lparr> x_mean := Some [0, 0] \<rparr>, 1 / 2),
              (3, 1, OutlierByDistance_init\<lparr> x_mean := Some [0, 0] \<rparr>, 1 / 4)] \<rparr>)"
  by (simp add: OutlierDetectorAggregatorSearch_fit_def demo_outlier_collaborators_def
        demo_outlier_search_def demo_tags_def extract_trainings_data_def
        extract_x_def resize_def init_fields side_descriptor_def stack_rows_def
        update_best_outlier_def OutlierByDistance_init_def)

theorem outlier_best_strictly_greater_witness:
  "\<exists>st. OutlierDetectorAggregatorSearch_fit demo_outlier_collaborators demo_outlier_search None
      demo_tags demo_tags = Inr (1 / 2, st)
    \<and> od_best_score st = 1 / 2
    \<and> od_best_candidate st = Some 1
    \<and> map od_score (od_evaluated st) = [0, 1 / 2, 1 / 2, 1 / 4]"
  using demo_outlier_run
    outlier_best_strictly_greater [where ext = demo_outlier_collaborators
      and self = demo_outlier_search and folder = None and tags = demo_tags
      and tags_test = demo_tags and best = "1 / 2"]
  by (simp add: od_score_def)

end
